theory Spec2Isabelle
  imports Main "HOL-Library.Multiset"
begin

section \<open>Client view: the chats and messages slices\<close>

text \<open>
  \<^verbatim>\<open>interface Chat { id; title; lastMessageAt; unreadCount }\<close> of chatsSlice and
  \<^verbatim>\<open>interface Message { id; chatId; ts; sender; body }\<close> of messagesSlice. The field
  \<^verbatim>\<open>id\<close> is written \<open>chat_id\<close> and \<open>msg_id\<close> (\<open>id\<close> is the identity function of HOL).
  JavaScript numbers that only ever hold integers here are \<open>int\<close>.
\<close>

record Chat =
  chat_id :: string
  title :: string
  lastMessageAt :: int
  unreadCount :: int

record Message =
  msg_id :: string
  chatId :: string
  ts :: int
  sender :: string
  body :: string

record ChatsState =
  items :: "Chat list"
  total :: int
  hasMore :: bool
  currentOffset :: int
  loading :: bool
  error :: "string option"

record MessagesState =
  msg_items :: "Message list"
  selectedChatId :: "string option"
  msg_total :: int
  msg_hasMore :: bool
  msg_currentOffset :: int
  msg_loading :: bool
  msg_error :: "string option"

text \<open>
  \<^verbatim>\<open>const chat = state.items.find(p); if (chat) { mutate chat }\<close>: the first element that
  satisfies \<open>p\<close> is changed in place, the array keeps its length and its order.
\<close>

fun update_first :: "('a \<Rightarrow> bool) \<Rightarrow> ('a \<Rightarrow> 'a) \<Rightarrow> 'a list \<Rightarrow> 'a list" where
  "update_first p f [] = []"
| "update_first p f (x # xs) = (if p x then f x # xs else x # update_first p f xs)"

text \<open>
  \<^verbatim>\<open>chat.unreadCount += 1\<close> on a JavaScript number. The counter holds an integer (it
  comes from an INTEGER column and is only ever incremented or reset), kept as an IEEE 754
  double: from \<open>-2^53\<close> up to \<open>2^53 - 1\<close> adding 1 is exact; beyond, up to \<open>2^54\<close> in
  magnitude, the doubles are the even integers and the odd sum is a tie that rounds to
  the neighbour with the even significand, the multiple of 4 (so \<open>2^53 + 1\<close> is \<open>2^53\<close>);
  further out the sum rounds back to the number itself.
  Here \<open>9007199254740992 = 2^53\<close> and \<open>18014398509481984 = 2^54\<close>.
\<close>

definition js_add1 :: "int \<Rightarrow> int" where
  "js_add1 x =
     (if - 9007199254740992 \<le> x \<and> x < 9007199254740992 then x + 1
      else if - 18014398509481984 \<le> x \<and> x < 18014398509481984 \<and> x mod 4 = 2 then x + 2
      else x)"

text \<open>
  chatsSlice.incrementChatUnread; \<open>now\<close> is the value \<^verbatim>\<open>Date.now()\<close> returns.
\<close>

definition incrementChatUnread :: "ChatsState \<Rightarrow> string \<Rightarrow> int \<Rightarrow> ChatsState" where
  "incrementChatUnread state payload now =
     state\<lparr>items := update_first (\<lambda>c. chat_id c = payload)
        (\<lambda>chat. chat\<lparr>unreadCount := js_add1 (unreadCount chat), lastMessageAt := now\<rparr>)
        (items state)\<rparr>"

text \<open>chatsSlice.markChatRead.\<close>

definition markChatRead :: "ChatsState \<Rightarrow> string \<Rightarrow> ChatsState" where
  "markChatRead state payload =
     state\<lparr>items := update_first (\<lambda>c. chat_id c = payload)
        (\<lambda>chat. chat\<lparr>unreadCount := 0\<rparr>) (items state)\<rparr>"

text \<open>messagesSlice.addMessage: appended only when the message's chat is the selected one.\<close>

definition addMessage :: "MessagesState \<Rightarrow> Message \<Rightarrow> MessagesState" where
  "addMessage state payload =
     (if selectedChatId state = Some (chatId payload)
      then state\<lparr>msg_items := msg_items state @ [payload]\<rparr>
      else state)"

text \<open>
  The two slices that \<^verbatim>\<open>WebSocketManager.handleNewMessage\<close> dispatches to, and the
  handler: first \<^verbatim>\<open>incrementChatUnread(chatId)\<close>, then \<^verbatim>\<open>addMessage({id: messageId, ...})\<close>.
  The event's \<^verbatim>\<open>data\<close> is the message itself, its \<^verbatim>\<open>messageId\<close> being \<open>msg_id\<close>.
\<close>

record View =
  chats :: ChatsState
  messages :: MessagesState

definition handleNewMessage :: "View \<Rightarrow> Message \<Rightarrow> int \<Rightarrow> View" where
  "handleNewMessage v data now =
     (let v1 = v\<lparr>chats := incrementChatUnread (chats v) (chatId data) now\<rparr>
      in v1\<lparr>messages := addMessage (messages v1) data\<rparr>)"

text \<open>
  A sequence of NEW_MESSAGE events, each with the clock value at which it is applied.
\<close>

fun applyNewMessages :: "View \<Rightarrow> (Message \<times> int) list \<Rightarrow> View" where
  "applyNewMessages v [] = v"
| "applyNewMessages v ((data, now) # es) = applyNewMessages (handleNewMessage v data now) es"

text \<open>The unread counter the chat list shows for a chat id, when that chat is loaded.\<close>

definition unreadCountOf :: "View \<Rightarrow> string \<Rightarrow> int option" where
  "unreadCountOf v X = map_option unreadCount (find (\<lambda>c. chat_id c = X) (items (chats v)))"

text \<open>
  The ordering of the chats by \<open>lastMessageAt\<close>, most recent first: the client never sorts
  \<^verbatim>\<open>state.items\<close>, so this is the order the query of \<^verbatim>\<open>getChats\<close> defines
  (\<^verbatim>\<open>ORDER BY lastMessageAt DESC\<close>), taken over the loaded chats; chats with equal
  timestamps keep their order in the list.
\<close>

definition orderByLastMessageAt :: "Chat list \<Rightarrow> Chat list" where
  "orderByLastMessageAt cs = sort_key (\<lambda>c. - lastMessageAt c) cs"

section \<open>The store: the SQLite database module\<close>

text \<open>
  The tables \<^verbatim>\<open>chats\<close> and \<^verbatim>\<open>messages\<close>, each a list of rows in insertion (rowid)
  order. A statement of better-sqlite3 throws a \<^verbatim>\<open>SqliteError\<close> when SQLite reports a
  failure: a constraint of the schema (\<^verbatim>\<open>PRIMARY KEY\<close>, and \<^verbatim>\<open>FOREIGN KEY\<close> under
  \<^verbatim>\<open>foreign_keys = ON\<close>), or a failure of the environment (disk full, I/O error, a
  locked database file). The latter is the parameter \<open>fault\<close> of every statement: \<open>None\<close>
  when the environment lets the statement run.
\<close>

record Store =
  chat_rows :: "Chat list"
  message_rows :: "Message list"

datatype SqliteError =
    SQLITE_CONSTRAINT_PRIMARYKEY
  | SQLITE_CONSTRAINT_FOREIGNKEY
  | SQLITE_FULL
  | SQLITE_IOERR
  | SQLITE_BUSY

text \<open>\<^verbatim>\<open>INSERT INTO messages (id, chatId, ts, sender, body) VALUES (?, ?, ?, ?, ?)\<close>\<close>

definition insertMsg_run :: "SqliteError option \<Rightarrow> Store \<Rightarrow> Message \<Rightarrow> SqliteError + Store" where
  "insertMsg_run fault db m =
     (case fault of
        Some e \<Rightarrow> Inl e
      | None \<Rightarrow>
          if msg_id m \<in> set (map msg_id (message_rows db)) then Inl SQLITE_CONSTRAINT_PRIMARYKEY
          else if chatId m \<notin> set (map chat_id (chat_rows db)) then Inl SQLITE_CONSTRAINT_FOREIGNKEY
          else Inr (db\<lparr>message_rows := message_rows db @ [m]\<rparr>))"

text \<open>
  \<^verbatim>\<open>UPDATE chats SET lastMessageAt = ?, unreadCount = unreadCount + 1 WHERE id = ?\<close> when
  \<open>increment_unread\<close>, \<^verbatim>\<open>UPDATE chats SET lastMessageAt = ? WHERE id = ?\<close> otherwise.
\<close>

definition updateChat_run ::
  "SqliteError option \<Rightarrow> Store \<Rightarrow> bool \<Rightarrow> int \<Rightarrow> string \<Rightarrow> SqliteError + Store" where
  "updateChat_run fault db increment_unread t cid =
     (case fault of
        Some e \<Rightarrow> Inl e
      | None \<Rightarrow>
          Inr (db\<lparr>chat_rows := map (\<lambda>c. if chat_id c = cid
                 then (if increment_unread
                       then c\<lparr>lastMessageAt := t, unreadCount := unreadCount c + 1\<rparr>
                       else c\<lparr>lastMessageAt := t\<rparr>)
                 else c) (chat_rows db)\<rparr>))"

text \<open>
  \<^verbatim>\<open>insertMessage(chatId, messageId, ts, sender, body, increment_unread)\<close>: the two
  statements run one after the other, each committed on its own; the \<^verbatim>\<open>catch\<close> logs and
  rethrows. The result is the store the call leaves behind and the error thrown, if any.
\<close>

definition insertMessage ::
  "SqliteError option \<Rightarrow> SqliteError option \<Rightarrow> Store \<Rightarrow> string \<Rightarrow> string \<Rightarrow> int \<Rightarrow> string \<Rightarrow> string
     \<Rightarrow> bool \<Rightarrow> Store \<times> SqliteError option" where
  "insertMessage fault1 fault2 db cid messageId t sndr bdy increment_unread =
     (case insertMsg_run fault1 db
             \<lparr>msg_id = messageId, chatId = cid, ts = t, sender = sndr, body = bdy\<rparr> of
        Inl e \<Rightarrow> (db, Some e)
      | Inr db1 \<Rightarrow>
          (case updateChat_run fault2 db1 increment_unread t cid of
             Inl e \<Rightarrow> (db1, Some e)
           | Inr db2 \<Rightarrow> (db2, None)))"

text \<open>\<^verbatim>\<open>markChatAsRead(chatId)\<close>: \<^verbatim>\<open>UPDATE chats SET unreadCount = 0 WHERE id = ?\<close>\<close>

definition markChatAsRead :: "SqliteError option \<Rightarrow> Store \<Rightarrow> string \<Rightarrow> Store \<times> SqliteError option" where
  "markChatAsRead fault db cid =
     (case fault of
        Some e \<Rightarrow> (db, Some e)
      | None \<Rightarrow>
          (db\<lparr>chat_rows := map (\<lambda>c. if chat_id c = cid then c\<lparr>unreadCount := 0\<rparr> else c)
                 (chat_rows db)\<rparr>, None))"





section \<open>The connection slice\<close>

datatype ConnectionStatus = Connected | Connecting | Disconnected | Error

record ConnectionState =
  status :: ConnectionStatus
  lastHeartbeat :: int
  conn_reconnectAttempt :: int
  conn_error :: "string option"

definition initialState :: ConnectionState where
  "initialState = \<lparr>status = Disconnected, lastHeartbeat = 0, conn_reconnectAttempt = 0,
     conn_error = None\<rparr>"

definition setConnecting :: "ConnectionState \<Rightarrow> ConnectionState" where
  "setConnecting state = state\<lparr>status := Connecting, conn_error := None\<rparr>"

definition setConnected :: "int \<Rightarrow> ConnectionState \<Rightarrow> ConnectionState" where
  "setConnected now state =
     state\<lparr>status := Connected, conn_reconnectAttempt := 0, conn_error := None,
       lastHeartbeat := now\<rparr>"

definition setDisconnected :: "ConnectionState \<Rightarrow> ConnectionState" where
  "setDisconnected state =
     state\<lparr>status := Disconnected, conn_reconnectAttempt := conn_reconnectAttempt state + 1\<rparr>"

definition setConnectionError :: "string \<Rightarrow> ConnectionState \<Rightarrow> ConnectionState" where
  "setConnectionError payload state = state\<lparr>status := Error, conn_error := Some payload\<rparr>"

definition updateHeartbeat :: "int \<Rightarrow> ConnectionState \<Rightarrow> ConnectionState" where
  "updateHeartbeat now state = state\<lparr>lastHeartbeat := now\<rparr>"

section \<open>The WebSocket manager\<close>

text \<open>
  The manager runs in a browser: its sockets and timers belong to the environment. The
  model keeps them beside the manager's own fields.
  \<^item> \<open>sockets\<close>: the \<^verbatim>\<open>readyState\<close> of every socket \<^verbatim>\<open>connect()\<close> has created, in order
    of creation; a socket is named by its index. Every one of them carries the four
    handlers \<^verbatim>\<open>connect()\<close> attaches, which close over the manager, not over the socket.
  \<^item> \<open>timers\<close>: the timers that are pending, by handle. Handles are positive, so a stored
    handle is truthy. \<^verbatim>\<open>clearTimeout\<close> and \<^verbatim>\<open>clearInterval\<close> remove a handle.
  \<^item> \<open>clock\<close>: what \<^verbatim>\<open>Date.now()\<close> returns.
  \<^item> \<open>sent\<close>: the frames given to \<^verbatim>\<open>ws.send\<close>, with their socket.
  \<^item> \<open>ran\<close>: the timer callbacks that have run, oldest first (bookkeeping of the model,
    to state which callbacks fire).
  Console output is left out.
\<close>

datatype readyState = CONNECTING | OPEN | CLOSING | CLOSED

datatype callback = ReconnectCb | HeartbeatIntervalCb | HeartbeatTimeoutCb

text \<open>
  A frame \<^verbatim>\<open>{type, data}\<close>, as \<^verbatim>\<open>JSON.parse\<close> returns it and \<^verbatim>\<open>JSON.stringify\<close> takes it;
  \<open>data\<close> is \<open>None\<close> when the frame carries no message fields.
\<close>

datatype WSMessage = WSMessage string "Message option"

record Timer =
  repeating :: bool
  callback :: callback
  delay :: int

record Manager =
  view :: View
  connection :: ConnectionState
  ws :: "nat option"
  reconnectAttempt :: nat
  reconnectTimeout :: "nat option"
  heartbeatInterval :: "nat option"
  heartbeatTimeout :: "nat option"
  sockets :: "readyState list"
  timers :: "(nat \<times> Timer) list"
  nextTimer :: nat
  clock :: int
  sent :: "(nat \<times> WSMessage) list"
  ran :: "callback list"

definition maxReconnectAttempts :: nat where
  "maxReconnectAttempts = 5"

definition HEARTBEAT_INTERVAL :: int where
  "HEARTBEAT_INTERVAL = 10000"

definition HEARTBEAT_TIMEOUT :: int where
  "HEARTBEAT_TIMEOUT = 5000"

definition emptyView :: View where
  "emptyView =
     \<lparr>chats = \<lparr>items = [], total = 0, hasMore = True, currentOffset = 0, loading = False,
                error = None\<rparr>,
      messages = \<lparr>msg_items = [], selectedChatId = None, msg_total = 0, msg_hasMore = True,
                   msg_currentOffset = 0, msg_loading = False, msg_error = None\<rparr>\<rparr>"

text \<open>\<^verbatim>\<open>new WebSocketManager()\<close> over the initial store.\<close>

definition newManager :: Manager where
  "newManager =
     \<lparr>view = emptyView, connection = initialState, ws = None, reconnectAttempt = 0,
      reconnectTimeout = None, heartbeatInterval = None, heartbeatTimeout = None,
      sockets = [], timers = [], nextTimer = 1, clock = 0, sent = [], ran = []\<rparr>"

definition setTimeout :: "callback \<Rightarrow> int \<Rightarrow> Manager \<Rightarrow> nat \<times> Manager" where
  "setTimeout cb d m =
     (nextTimer m,
      m\<lparr>timers := timers m @ [(nextTimer m, \<lparr>repeating = False, callback = cb, delay = d\<rparr>)],
        nextTimer := nextTimer m + 1\<rparr>)"

definition setInterval :: "callback \<Rightarrow> int \<Rightarrow> Manager \<Rightarrow> nat \<times> Manager" where
  "setInterval cb d m =
     (nextTimer m,
      m\<lparr>timers := timers m @ [(nextTimer m, \<lparr>repeating = True, callback = cb, delay = d\<rparr>)],
        nextTimer := nextTimer m + 1\<rparr>)"

definition clearTimeout :: "nat \<Rightarrow> Manager \<Rightarrow> Manager" where
  "clearTimeout h m = m\<lparr>timers := filter (\<lambda>t. fst t \<noteq> h) (timers m)\<rparr>"

definition clearInterval :: "nat \<Rightarrow> Manager \<Rightarrow> Manager" where
  "clearInterval h m = clearTimeout h m"

text \<open>
  \<^verbatim>\<open>ws.close()\<close>: a socket that is connecting or open starts closing; its close event
  comes later, from the environment. On a closing or closed socket nothing happens.
\<close>

definition socket_close :: "nat \<Rightarrow> Manager \<Rightarrow> Manager" where
  "socket_close s m =
     (if s < length (sockets m) \<and> (sockets m ! s = CONNECTING \<or> sockets m ! s = OPEN)
      then m\<lparr>sockets := (sockets m)[s := CLOSING]\<rparr> else m)"

definition stopHeartbeat :: "Manager \<Rightarrow> Manager" where
  "stopHeartbeat m =
     (let m1 = (case heartbeatInterval m of Some h \<Rightarrow> clearInterval h m | None \<Rightarrow> m)
      in (case heartbeatTimeout m1 of Some h \<Rightarrow> clearTimeout h m1 | None \<Rightarrow> m1))"

definition disconnect :: "Manager \<Rightarrow> Manager" where
  "disconnect m =
     (let m1 = stopHeartbeat m;
          m2 = (case reconnectTimeout m1 of Some h \<Rightarrow> clearTimeout h m1 | None \<Rightarrow> m1)
      in (case ws m2 of Some s \<Rightarrow> (socket_close s m2)\<lparr>ws := None\<rparr> | None \<Rightarrow> m2))"

text \<open>
  \<^verbatim>\<open>delay = Math.min(Math.pow(2, this.reconnectAttempt) * 1000, 30000)\<close>, in milliseconds.
\<close>

definition reconnectDelay :: "nat \<Rightarrow> int" where
  "reconnectDelay a = min (2 ^ a * 1000) 30000"

definition scheduleReconnect :: "Manager \<Rightarrow> Manager" where
  "scheduleReconnect m =
     (let d = reconnectDelay (reconnectAttempt m) in
      if reconnectAttempt m < maxReconnectAttempts
      then (let (h, m1) = setTimeout ReconnectCb d m in m1\<lparr>reconnectTimeout := Some h\<rparr>)
      else m\<lparr>connection := setConnectionError
                ''Max reconnection attempts reached. Please restart app.'' (connection m)\<rparr>)"

text \<open>
  \<^verbatim>\<open>connect()\<close>. \<open>thrown\<close> is the environment's answer to \<^verbatim>\<open>new WebSocket(WS_URL)\<close>:
  \<open>None\<close> when the constructor returns a socket (in state \<open>CONNECTING\<close>), \<open>Some msg\<close> when it
  throws an error with that message, which the \<^verbatim>\<open>catch\<close> handles.
\<close>

definition connect :: "string option \<Rightarrow> Manager \<Rightarrow> Manager" where
  "connect thrown m =
     (let m1 = m\<lparr>connection := setConnecting (connection m)\<rparr> in
      case thrown of
        None \<Rightarrow> m1\<lparr>ws := Some (length (sockets m1)), sockets := sockets m1 @ [CONNECTING]\<rparr>
      | Some errorMsg \<Rightarrow>
          scheduleReconnect (m1\<lparr>connection := setConnectionError errorMsg (connection m1)\<rparr>))"

definition startHeartbeat :: "Manager \<Rightarrow> Manager" where
  "startHeartbeat m =
     (let (h, m1) = setInterval HeartbeatIntervalCb HEARTBEAT_INTERVAL m
      in m1\<lparr>heartbeatInterval := Some h\<rparr>)"

definition handlePong :: "Manager \<Rightarrow> Manager" where
  "handlePong m =
     (let m1 = (case heartbeatTimeout m of Some h \<Rightarrow> clearTimeout h m | None \<Rightarrow> m)
      in m1\<lparr>connection := updateHeartbeat (clock m1) (connection m1)\<rparr>)"

text \<open>\<^verbatim>\<open>handleMessage\<close> switches on the type of the frame.\<close>

fun handleMessage :: "WSMessage \<Rightarrow> Manager \<Rightarrow> Manager" where
  "handleMessage (WSMessage type data) m =
     (if type = ''NEW_MESSAGE''
      then (case data of
              Some d \<Rightarrow> m\<lparr>view := handleNewMessage (view m) d (clock m)\<rparr>
            | None \<Rightarrow> m)
      else if type = ''PONG'' then handlePong m
      else m)"

text \<open>The handlers \<^verbatim>\<open>connect()\<close> attaches to a socket.\<close>

definition onopen :: "Manager \<Rightarrow> Manager" where
  "onopen m =
     startHeartbeat
       (m\<lparr>connection := setConnected (clock m) (connection m), reconnectAttempt := 0\<rparr>)"

definition onclose :: "Manager \<Rightarrow> Manager" where
  "onclose m =
     scheduleReconnect (stopHeartbeat (m\<lparr>connection := setDisconnected (connection m)\<rparr>))"

definition onerror :: "Manager \<Rightarrow> Manager" where
  "onerror m =
     m\<lparr>connection := setConnectionError ''WebSocket error: [object Event]'' (connection m)\<rparr>"

text \<open>
  The timer callbacks. The reconnect callback: \<^verbatim>\<open>this.reconnectAttempt += 1; this.connect()\<close>.
  The heartbeat interval: when \<^verbatim>\<open>this.ws\<close> is an open socket, send a PING and arm the
  heartbeat timeout. The heartbeat timeout: \<^verbatim>\<open>this.disconnect(); this.connect()\<close>.
\<close>

definition runCallback :: "callback \<Rightarrow> string option \<Rightarrow> Manager \<Rightarrow> Manager" where
  "runCallback cb thrown m0 =
     (let m = m0\<lparr>ran := ran m0 @ [cb]\<rparr> in
      case cb of
        ReconnectCb \<Rightarrow> connect thrown (m\<lparr>reconnectAttempt := reconnectAttempt m + 1\<rparr>)
      | HeartbeatIntervalCb \<Rightarrow>
          (case ws m of
             Some s \<Rightarrow>
               if s < length (sockets m) \<and> sockets m ! s = OPEN
               then (let m1 = m\<lparr>sent := sent m @ [(s, WSMessage ''PING'' None)]\<rparr>;
                         (h, m2) = setTimeout HeartbeatTimeoutCb HEARTBEAT_TIMEOUT m1
                     in m2\<lparr>heartbeatTimeout := Some h\<rparr>)
               else m
           | None \<Rightarrow> m)
      | HeartbeatTimeoutCb \<Rightarrow> connect thrown (disconnect m))"

text \<open>
  What can happen to a manager: a call of its two public methods by the application, an
  event of one of its sockets, a pending timer firing, time passing. Callbacks run one at
  a time. \<open>step\<close> is \<open>None\<close> when the event cannot happen in that state: an open event
  needs a connecting socket, a message an open or closing one, an error or a close event
  a socket that is not closed yet, a timer event a pending handle. A timeout is removed
  when it fires, an interval stays. A frame that \<^verbatim>\<open>JSON.parse\<close> rejects (\<open>None\<close>) makes
  \<^verbatim>\<open>onmessage\<close> throw before it changes anything.
\<close>

datatype event =
    CallConnect "string option"
  | CallDisconnect
  | SockOpen nat
  | SockMessage nat "WSMessage option"
  | SockError nat
  | SockClose nat
  | TimerFire nat "string option"
  | Advance nat

fun step :: "event \<Rightarrow> Manager \<Rightarrow> Manager option" where
  "step (CallConnect thrown) m = Some (connect thrown m)"
| "step CallDisconnect m = Some (disconnect m)"
| "step (SockOpen s) m =
     (if s < length (sockets m) \<and> sockets m ! s = CONNECTING
      then Some (onopen (m\<lparr>sockets := (sockets m)[s := OPEN]\<rparr>)) else None)"
| "step (SockMessage s frame) m =
     (if s < length (sockets m) \<and> (sockets m ! s = OPEN \<or> sockets m ! s = CLOSING)
      then (case frame of Some msg \<Rightarrow> Some (handleMessage msg m) | None \<Rightarrow> Some m)
      else None)"
| "step (SockError s) m =
     (if s < length (sockets m) \<and> sockets m ! s \<noteq> CLOSED then Some (onerror m) else None)"
| "step (SockClose s) m =
     (if s < length (sockets m) \<and> sockets m ! s \<noteq> CLOSED
      then Some (onclose (m\<lparr>sockets := (sockets m)[s := CLOSED]\<rparr>)) else None)"
| "step (TimerFire h thrown) m =
     (case map_of (timers m) h of
        None \<Rightarrow> None
      | Some t \<Rightarrow>
          Some (runCallback (callback t) thrown
                 (if repeating t then m else clearTimeout h m)))"
| "step (Advance d) m = Some (m\<lparr>clock := clock m + int d\<rparr>)"

fun run :: "event list \<Rightarrow> Manager \<Rightarrow> Manager option" where
  "run [] m = Some m"
| "run (e # es) m = (case step e m of None \<Rightarrow> None | Some m1 \<Rightarrow> run es m1)"

section \<open>Example states\<close>

text \<open>
  A chat list of two loaded chats, with a selected chat or none; a message of the
  broadcaster for a chat; a chat list of one chat whose counter is \<open>2^53\<close>; a store holding
  the first two chats; a table of 120 chats with distinct ids, seven different timestamps
  among them.
\<close>

definition chatA :: Chat where
  "chatA = \<lparr>chat_id = ''a'', title = ''Chat 1'', lastMessageAt = 5, unreadCount = 0\<rparr>"

definition chatB :: Chat where
  "chatB = \<lparr>chat_id = ''b'', title = ''Chat 2'', lastMessageAt = 3, unreadCount = 2\<rparr>"

definition exampleView :: "string option \<Rightarrow> View" where
  "exampleView active =
     \<lparr>chats = (chats emptyView)\<lparr>items := [chatA, chatB]\<rparr>,
      messages = (messages emptyView)\<lparr>selectedChatId := active\<rparr>\<rparr>"

definition msgTo :: "string \<Rightarrow> string \<Rightarrow> Message" where
  "msgTo cid mid =
     \<lparr>msg_id = mid, chatId = cid, ts = 10, sender = ''user_001'', body = ''Got it, thanks!''\<rparr>"

definition chatC :: Chat where
  "chatC = \<lparr>chat_id = ''c'', title = ''Chat 3'', lastMessageAt = 1,
             unreadCount = 9007199254740992\<rparr>"

definition bigView :: View where
  "bigView = (exampleView None)\<lparr>chats := (chats (exampleView None))\<lparr>items := [chatC]\<rparr>\<rparr>"

definition exampleStore :: Store where
  "exampleStore = \<lparr>chat_rows = [chatA, chatB], message_rows = []\<rparr>"


section \<open>Runs of the manager\<close>

text \<open>
  The state a fresh manager is in after a sequence of events, when every event of the
  sequence can happen (\<open>run\<close> is \<open>Some\<close>).
\<close>

definition stateAfter :: "event list \<Rightarrow> Manager" where
  "stateAfter es = the (run es newManager)"

text \<open>
  The application calls \<open>connect()\<close> and the next \<open>n\<close> connection attempts fail one after
  the other: socket \<open>i\<close> reports an error and closes without ever opening, and the
  reconnect timer armed by the close of socket \<open>i - 1\<close> (handle \<open>i\<close>) has fired before.
\<close>

fun failing_run :: "nat \<Rightarrow> event list" where
  "failing_run 0 = [CallConnect None]"
| "failing_run (Suc n) =
     failing_run n @ (if n = 0 then [] else [TimerFire n None]) @ [SockError n, SockClose n]"

text \<open>
  The manager has given up: the slice shows the error of \<open>scheduleReconnect\<close>, the counter
  has reached the maximum, no timer is pending and every socket is closed.
\<close>

definition givenUp :: "Manager \<Rightarrow> bool" where
  "givenUp m =
     (status (connection m) = Error
      \<and> conn_error (connection m)
          = Some ''Max reconnection attempts reached. Please restart app.''
      \<and> timers m = []
      \<and> list_all (\<lambda>s. s = CLOSED) (sockets m)
      \<and> maxReconnectAttempts \<le> reconnectAttempt m)"

text \<open>
  A connected manager; one whose heartbeat interval has fired once, so that a PING is
  out and the heartbeat timeout (handle 2) is pending; the events up to the return of a
  \<open>disconnect()\<close> on a connected manager.
\<close>

definition connectedManager :: Manager where
  "connectedManager = stateAfter [CallConnect None, SockOpen 0]"


definition disconnectRun :: "event list" where
  "disconnectRun = [CallConnect None, SockOpen 0, CallDisconnect]"

section \<open>Updating the first match of a list\<close>

lemma find_update_first_keep:
  "(\<And>x. p x \<Longrightarrow> p (f x)) \<Longrightarrow> find p (update_first p f xs) = map_option f (find p xs)"
  by (induction xs) auto

lemma length_update_first: "length (update_first p f xs) = length xs"
  by (induction xs) auto

lemma nth_update_first:
  "i < length xs \<Longrightarrow>
   update_first p f xs ! i = xs ! i \<or> (p (xs ! i) \<and> update_first p f xs ! i = f (xs ! i))"
proof (induction xs arbitrary: i)
  case Nil
  then show ?case by simp
next
  case (Cons x xs)
  then show ?case by (cases i) auto
qed

lemma update_first_distinct:
  "distinct (map k xs) \<Longrightarrow>
   update_first (\<lambda>c. k c = v) f xs = map (\<lambda>c. if k c = v then f c else c) xs"
proof (induction xs)
  case Nil
  then show ?case by simp
next
  case (Cons x xs)
  show ?case
  proof (cases "k x = v")
    case True
    with Cons.prems have "\<forall>c \<in> set xs. k c \<noteq> v" by (auto simp: image_iff)
    then have "map (\<lambda>c. if k c = v then f c else c) xs = xs"
      by (simp add: map_idI)
    with True show ?thesis by simp
  next
    case False
    with Cons show ?thesis by simp
  qed
qed

section \<open>Unread counters\<close>

lemma js_add1_exact:
  "- 9007199254740992 \<le> n \<Longrightarrow> n < 9007199254740992 \<Longrightarrow> js_add1 n = n + 1"
  by (simp add: js_add1_def)

lemma update_first_none:
  "find p xs = None \<Longrightarrow> update_first p f xs = xs"
  by (induction xs) (auto split: if_splits)

lemma find_Some_set: "find p xs = Some x \<Longrightarrow> x \<in> set xs \<and> p x"
  by (induction xs) (auto split: if_splits)

lemma unreadCountOf_handleNewMessage:
  "chatId data = X \<Longrightarrow>
   unreadCountOf (handleNewMessage v data now) X = map_option js_add1 (unreadCountOf v X)"
  by (simp add: unreadCountOf_def handleNewMessage_def Let_def incrementChatUnread_def
      find_update_first_keep option.map_comp comp_def)

lemma chats_handleNewMessage_unloaded:
  "find (\<lambda>c. chat_id c = chatId data) (items (chats v)) = None \<Longrightarrow>
   chats (handleNewMessage v data now) = chats v"
  by (simp add: handleNewMessage_def Let_def incrementChatUnread_def update_first_none)

lemma unreadCountOf_applyNewMessages:
  "\<forall>e \<in> set es. chatId (fst e) = X \<Longrightarrow> unreadCountOf v X = Some n \<Longrightarrow>
   - 9007199254740992 \<le> n \<Longrightarrow> n + int (length es) \<le> 9007199254740992 \<Longrightarrow>
   unreadCountOf (applyNewMessages v es) X = Some (n + int (length es))"
proof (induction es arbitrary: v n)
  case Nil
  then show ?case by simp
next
  case (Cons e es)
  obtain data now where e: "e = (data, now)" by (cases e)
  from Cons.prems(1) e have X: "chatId data = X" and rest: "\<forall>e \<in> set es. chatId (fst e) = X"
    by auto
  from Cons.prems(3,4) have n: "- 9007199254740992 \<le> n" "n < 9007199254740992"
    by simp_all
  have one: "unreadCountOf (handleNewMessage v data now) X = Some (n + 1)"
    using Cons.prems(2) n by (simp add: unreadCountOf_handleNewMessage [OF X] js_add1_exact)
  have "unreadCountOf (applyNewMessages (handleNewMessage v data now) es) X
          = Some (n + 1 + int (length es))"
    using Cons.prems(3,4) by (intro Cons.IH [OF rest one]) simp_all
  then show ?case by (simp add: e algebra_simps)
qed

lemma chats_applyNewMessages_unloaded:
  "\<forall>e \<in> set es. chatId (fst e) = X \<Longrightarrow> unreadCountOf v X = None \<Longrightarrow>
   chats (applyNewMessages v es) = chats v"
proof (induction es arbitrary: v)
  case Nil
  then show ?case by simp
next
  case (Cons e es)
  obtain data now where e: "e = (data, now)" by (cases e)
  from Cons.prems(1) e have X: "chatId data = X" and rest: "\<forall>e \<in> set es. chatId (fst e) = X"
    by auto
  from Cons.prems(2) X have none: "find (\<lambda>c. chat_id c = chatId data) (items (chats v)) = None"
    by (simp add: unreadCountOf_def)
  have same: "chats (handleNewMessage v data now) = chats v"
    by (rule chats_handleNewMessage_unloaded [OF none])
  then have "unreadCountOf (handleNewMessage v data now) X = None"
    using Cons.prems(2) by (simp add: unreadCountOf_def)
  from Cons.IH [OF rest this] same show ?case by (simp add: e)
qed

text \<open>
  C3 as the code has it. For every chat \<open>X\<close> that is in the loaded chat list with a
  counter \<open>n\<close>, \<open>-2^53 \<le> n\<close>, and every \<open>N\<close> with \<open>n + N \<le> 2^53\<close>, applying \<open>N\<close> NEW_MESSAGE
  events whose \<open>chatId\<close> is \<open>X\<close> raises the unread counter of \<open>X\<close> by exactly \<open>N\<close>, whatever
  chat is the selected one (\<open>active\<close>) and whatever the other fields of the events are.
  When \<open>X\<close> is not in the loaded list the events leave the chat list as it is.
\<close>

theorem loaded_unreadCount_increases_by_N:
  assumes "\<forall>e \<in> set es. chatId (fst e) = X"
  shows "(unreadCountOf v X = Some n \<and> - 9007199254740992 \<le> n
            \<and> n + int (length es) \<le> 9007199254740992 \<longrightarrow>
          unreadCountOf
            (applyNewMessages (v\<lparr>messages := (messages v)\<lparr>selectedChatId := active\<rparr>\<rparr>) es) X
          = Some (n + int (length es)))
       \<and> (unreadCountOf v X = None \<longrightarrow>
          chats (applyNewMessages (v\<lparr>messages := (messages v)\<lparr>selectedChatId := active\<rparr>\<rparr>) es)
          = chats v)"
proof -
  let ?v = "v\<lparr>messages := (messages v)\<lparr>selectedChatId := active\<rparr>\<rparr>"
  have u: "unreadCountOf ?v X = unreadCountOf v X" and c: "chats ?v = chats v"
    by (simp_all add: unreadCountOf_def)
  show ?thesis
    using unreadCountOf_applyNewMessages [OF assms, of ?v n]
      chats_applyNewMessages_unloaded [OF assms, of ?v]
    by (simp add: u c)
qed

theorem loaded_unreadCount_increases_by_N_witness:
  "chatId (msgTo ''b'' ''m1'') = ''b'' \<and> chatId (msgTo ''b'' ''m2'') = ''b''
   \<and> chatId (msgTo ''b'' ''m3'') = ''b''
   \<and> unreadCountOf (exampleView None) ''b'' = Some 2
   \<and> unreadCountOf
        (applyNewMessages
           ((exampleView None)\<lparr>messages := (messages (exampleView None))\<lparr>selectedChatId := Some ''b''\<rparr>\<rparr>)
           [(msgTo ''b'' ''m1'', 10), (msgTo ''b'' ''m2'', 11), (msgTo ''b'' ''m3'', 12)]) ''b''
      = Some 5
   \<and> unreadCountOf (exampleView None) ''z'' = None"
proof -
  have h1: "\<forall>e \<in> set [(msgTo ''b'' ''m1'', 10::int), (msgTo ''b'' ''m2'', 11), (msgTo ''b'' ''m3'', 12)].
      chatId (fst e) = ''b''"
    by (simp add: msgTo_def)
  have h2: "unreadCountOf (exampleView None) ''b'' = Some 2"
    "unreadCountOf (exampleView None) ''z'' = None"
    by (simp_all add: unreadCountOf_def exampleView_def emptyView_def chatA_def chatB_def)
  show ?thesis
    using h1 h2 loaded_unreadCount_increases_by_N [OF h1, of "exampleView None" 2 "Some ''b''"]
    by (simp add: msgTo_def)
qed

text \<open>
  C3 as stated fails. Chat \<open>z\<close> is not in the loaded list: two events for it change no
  counter and leave the list as it is. Chat \<open>c\<close> is loaded with counter \<open>2^53\<close>: an event for
  it leaves the counter at \<open>2^53\<close>.
\<close>

theorem unloaded_or_saturated_counter_does_not_increase:
  "unreadCountOf (exampleView None) ''z'' = None
   \<and> chats (applyNewMessages (exampleView None) [(msgTo ''z'' ''m1'', 10), (msgTo ''z'' ''m2'', 11)])
       = chats (exampleView None)
   \<and> unreadCountOf
        (applyNewMessages (exampleView None) [(msgTo ''z'' ''m1'', 10), (msgTo ''z'' ''m2'', 11)])
        ''z'' = None
   \<and> unreadCountOf bigView ''c'' = Some 9007199254740992
   \<and> unreadCountOf (applyNewMessages bigView [(msgTo ''c'' ''m1'', 10)]) ''c''
       = Some 9007199254740992"
  by (simp add: unreadCountOf_def handleNewMessage_def Let_def incrementChatUnread_def
      addMessage_def js_add1_def bigView_def exampleView_def emptyView_def chatA_def chatB_def
      chatC_def msgTo_def)

section \<open>The position of a chat in the ordering\<close>

lemma map_chat_id_update_first:
  "(\<And>c. chat_id (f c) = chat_id c) \<Longrightarrow> map chat_id (update_first p f xs) = map chat_id xs"
  by (induction xs) auto

lemma handleNewMessage_keeps_order:
  "map chat_id (items (chats (handleNewMessage v data now))) = map chat_id (items (chats v))"
  by (simp add: handleNewMessage_def Let_def incrementChatUnread_def map_chat_id_update_first)

lemma take_1_sort_key_least:
  fixes f :: "'a \<Rightarrow> 'b::linorder"
  assumes "x \<in> set xs" and "\<forall>y \<in> set xs. y \<noteq> x \<longrightarrow> f x < f y"
  shows "take 1 (sort_key f xs) = [x]"
proof -
  have "set (sort_key f xs) = set xs" by simp
  with assms(1) obtain h t where s: "sort_key f xs = h # t"
    by (cases "sort_key f xs") auto
  have "sorted (map f (sort_key f xs))" by (rule sorted_sort_key)
  with s have le: "\<forall>y \<in> set t. f h \<le> f y" by simp
  have mem: "set xs = insert h (set t)"
    using s set_sort [of f xs] by simp
  have "f h \<le> f x" using le mem assms(1) by auto
  moreover have "h \<in> set xs" using mem by simp
  ultimately have "h = x" using assms(2) by force
  with s show ?thesis by simp
qed

lemma first_after_event:
  assumes f: "find (\<lambda>c. chat_id c = X) cs = Some c"
    and d: "distinct (map chat_id cs)"
    and later: "\<forall>c' \<in> set cs. chat_id c' \<noteq> X \<longrightarrow> lastMessageAt c' < now"
  shows "take 1 (orderByLastMessageAt
           (update_first (\<lambda>c. chat_id c = X)
              (\<lambda>chat. chat\<lparr>unreadCount := k chat, lastMessageAt := now\<rparr>) cs))
         = [c\<lparr>unreadCount := k c, lastMessageAt := now\<rparr>]"
proof -
  let ?u = "\<lambda>chat. chat\<lparr>unreadCount := k chat, lastMessageAt := now\<rparr>"
  let ?cs' = "map (\<lambda>c. if chat_id c = X then ?u c else c) cs"
  have cs': "update_first (\<lambda>c. chat_id c = X) ?u cs = ?cs'"
    by (rule update_first_distinct [OF d])
  from find_Some_set [OF f] have c: "c \<in> set cs" "chat_id c = X" by simp_all
  have inj: "inj_on chat_id (set cs)"
    using d by (simp add: distinct_map)
  have mem: "?u c \<in> set ?cs'"
    using c by force
  have least: "\<forall>y \<in> set ?cs'. y \<noteq> ?u c \<longrightarrow> - lastMessageAt (?u c) < - lastMessageAt y"
  proof (intro ballI impI)
    fix y assume y: "y \<in> set ?cs'" and ne: "y \<noteq> ?u c"
    from y obtain c0 where c0: "c0 \<in> set cs" "y = (if chat_id c0 = X then ?u c0 else c0)"
      by auto
    show "- lastMessageAt (?u c) < - lastMessageAt y"
    proof (cases "chat_id c0 = X")
      case True
      with c c0(1) inj have "c0 = c" by (auto dest: inj_onD)
      with True c0(2) ne show ?thesis by simp
    next
      case False
      with c0 later show ?thesis by simp
    qed
  qed
  show ?thesis
    unfolding cs' orderByLastMessageAt_def
    by (rule take_1_sort_key_least [OF mem least])
qed

text \<open>
  C8 as the code has it. A NEW_MESSAGE event whose chat is in the loaded list adds 1 to
  the unread counter of that chat (exactly, for a counter from \<open>-2^53\<close> up to \<open>2^53 - 1\<close>)
  and sets its \<open>lastMessageAt\<close> to the clock value; when the ids of the list are distinct
  and the clock value is larger than the \<open>lastMessageAt\<close> of every other loaded chat, that
  chat is first in the ordering by \<open>lastMessageAt\<close>. An event whose chat is not loaded
  leaves the chat list as it is. In both cases \<open>items\<close> keeps its array order.
\<close>

theorem new_message_updates_loaded_chat:
  "(find (\<lambda>c. chat_id c = chatId data) (items (chats v)) = Some c \<longrightarrow>
      find (\<lambda>c. chat_id c = chatId data) (items (chats (handleNewMessage v data now)))
        = Some (c\<lparr>unreadCount := js_add1 (unreadCount c), lastMessageAt := now\<rparr>)
      \<and> (- 9007199254740992 \<le> unreadCount c \<and> unreadCount c < 9007199254740992 \<longrightarrow>
           unreadCountOf (handleNewMessage v data now) (chatId data) = Some (unreadCount c + 1))
      \<and> (distinct (map chat_id (items (chats v)))
           \<and> (\<forall>c' \<in> set (items (chats v)).
                 chat_id c' \<noteq> chatId data \<longrightarrow> lastMessageAt c' < now) \<longrightarrow>
           take 1 (orderByLastMessageAt (items (chats (handleNewMessage v data now))))
             = [c\<lparr>unreadCount := js_add1 (unreadCount c), lastMessageAt := now\<rparr>]))
   \<and> (find (\<lambda>c. chat_id c = chatId data) (items (chats v)) = None \<longrightarrow>
        chats (handleNewMessage v data now) = chats v)
   \<and> map chat_id (items (chats (handleNewMessage v data now))) = map chat_id (items (chats v))"
proof (intro conjI impI)
  assume f: "find (\<lambda>c. chat_id c = chatId data) (items (chats v)) = Some c"
  show found: "find (\<lambda>c. chat_id c = chatId data) (items (chats (handleNewMessage v data now)))
        = Some (c\<lparr>unreadCount := js_add1 (unreadCount c), lastMessageAt := now\<rparr>)"
    using f by (simp add: handleNewMessage_def Let_def incrementChatUnread_def
        find_update_first_keep)
  {
    assume "- 9007199254740992 \<le> unreadCount c \<and> unreadCount c < 9007199254740992"
    then show "unreadCountOf (handleNewMessage v data now) (chatId data)
        = Some (unreadCount c + 1)"
      using found by (simp add: unreadCountOf_def js_add1_exact)
  }
  {
    assume "distinct (map chat_id (items (chats v)))
           \<and> (\<forall>c' \<in> set (items (chats v)).
                 chat_id c' \<noteq> chatId data \<longrightarrow> lastMessageAt c' < now)"
    then show "take 1 (orderByLastMessageAt (items (chats (handleNewMessage v data now))))
             = [c\<lparr>unreadCount := js_add1 (unreadCount c), lastMessageAt := now\<rparr>]"
      using first_after_event [OF f, of now "\<lambda>chat. js_add1 (unreadCount chat)"]
      by (simp add: handleNewMessage_def Let_def incrementChatUnread_def)
  }
next
  assume "find (\<lambda>c. chat_id c = chatId data) (items (chats v)) = None"
  then show "chats (handleNewMessage v data now) = chats v"
    by (rule chats_handleNewMessage_unloaded)
next
  show "map chat_id (items (chats (handleNewMessage v data now))) = map chat_id (items (chats v))"
    by (rule handleNewMessage_keeps_order)
qed

theorem new_message_updates_loaded_chat_witness:
  "find (\<lambda>c. chat_id c = chatId (msgTo ''b'' ''m1'')) (items (chats (exampleView None)))
     = Some chatB
   \<and> distinct (map chat_id (items (chats (exampleView None))))
   \<and> lastMessageAt chatA < 10
   \<and> unreadCountOf (handleNewMessage (exampleView None) (msgTo ''b'' ''m1'') 10) ''b'' = Some 3
   \<and> take 1 (orderByLastMessageAt
               (items (chats (handleNewMessage (exampleView None) (msgTo ''b'' ''m1'') 10))))
       = [chatB\<lparr>unreadCount := 3, lastMessageAt := 10\<rparr>]
   \<and> map chat_id (items (chats (handleNewMessage (exampleView None) (msgTo ''b'' ''m1'') 10)))
       = [''a'', ''b'']"
proof -
  have h: "find (\<lambda>c. chat_id c = chatId (msgTo ''b'' ''m1'')) (items (chats (exampleView None)))
     = Some chatB"
    "distinct (map chat_id (items (chats (exampleView None))))"
    "\<forall>c' \<in> set (items (chats (exampleView None))).
        chat_id c' \<noteq> chatId (msgTo ''b'' ''m1'') \<longrightarrow> lastMessageAt c' < 10"
    "lastMessageAt chatA < 10" "unreadCount chatB = 2" "chatId (msgTo ''b'' ''m1'') = ''b''"
    "map chat_id (items (chats (exampleView None))) = [''a'', ''b'']"
    by (simp_all add: exampleView_def emptyView_def chatA_def chatB_def msgTo_def)
  have b: "- 9007199254740992 \<le> unreadCount chatB \<and> unreadCount chatB < 9007199254740992"
    by (simp add: chatB_def)
  note t = new_message_updates_loaded_chat [of "msgTo ''b'' ''m1''" "exampleView None" chatB 10]
  note loaded = t [THEN conjunct1, THEN mp, OF h(1)]
  note counter = loaded [THEN conjunct2, THEN conjunct1, THEN mp, OF b]
  note first = loaded [THEN conjunct2, THEN conjunct2, THEN mp, OF conjI [OF h(2) h(3)]]
  note order = t [THEN conjunct2, THEN conjunct2]
  show ?thesis
    using h counter first order by (simp add: js_add1_def)
qed

text \<open>
  C8 as stated fails. An event for chat \<open>z\<close>, which is not loaded, increments no counter
  and leaves the ordering as it was, with chat \<open>a\<close> first. An event for chat \<open>b\<close> applied
  at clock value 5, the \<open>lastMessageAt\<close> of chat \<open>a\<close>, leaves chat \<open>a\<close> first in the ordering
  by \<open>lastMessageAt\<close>. An event for chat \<open>c\<close>, whose counter is \<open>2^53\<close>, leaves the counter
  at \<open>2^53\<close>.
\<close>

theorem new_message_may_neither_increment_nor_move:
  "chats (handleNewMessage (exampleView None) (msgTo ''z'' ''m1'') 10) = chats (exampleView None)
   \<and> map chat_id (orderByLastMessageAt
        (items (chats (handleNewMessage (exampleView None) (msgTo ''z'' ''m1'') 10))))
       = [''a'', ''b'']
   \<and> map chat_id (orderByLastMessageAt
        (items (chats (handleNewMessage (exampleView None) (msgTo ''b'' ''m1'') 5))))
       = [''a'', ''b'']
   \<and> unreadCountOf bigView ''c'' = Some 9007199254740992
   \<and> unreadCountOf (handleNewMessage bigView (msgTo ''c'' ''m1'') 10) ''c''
       = Some 9007199254740992"
  by (simp add: unreadCountOf_def handleNewMessage_def Let_def incrementChatUnread_def
      addMessage_def js_add1_def orderByLastMessageAt_def bigView_def exampleView_def
      emptyView_def chatA_def chatB_def chatC_def msgTo_def)

section \<open>Marking a chat as read\<close>

text \<open>
  C10. \<open>markChatAsRead\<close> of the store sets \<open>unreadCount\<close> of the rows with the given id to 0
  and leaves every other row, every other column of the row and every message as they
  were (and the whole store, when the statement fails). \<open>markChatRead\<close> of the chat list
  does the same to the first loaded chat with that id, which is the only one when ids
  are distinct, and leaves the other fields of the slice as they were.
\<close>

theorem markChatRead_changes_unreadCount_only:
  "message_rows (fst (markChatAsRead None db cid)) = message_rows db
   \<and> snd (markChatAsRead None db cid) = None
   \<and> length (chat_rows (fst (markChatAsRead None db cid))) = length (chat_rows db)
   \<and> (\<forall>i < length (chat_rows db).
         chat_rows (fst (markChatAsRead None db cid)) ! i
           = (if chat_id (chat_rows db ! i) = cid
              then (chat_rows db ! i)\<lparr>unreadCount := 0\<rparr> else chat_rows db ! i))
   \<and> markChatAsRead (Some e) db cid = (db, Some e)
   \<and> markChatRead st cid = st\<lparr>items := items (markChatRead st cid)\<rparr>
   \<and> length (items (markChatRead st cid)) = length (items st)
   \<and> (\<forall>i < length (items st).
         items (markChatRead st cid) ! i = items st ! i
         \<or> (chat_id (items st ! i) = cid
            \<and> items (markChatRead st cid) ! i = (items st ! i)\<lparr>unreadCount := 0\<rparr>))
   \<and> find (\<lambda>c. chat_id c = cid) (items (markChatRead st cid))
       = map_option (\<lambda>c. c\<lparr>unreadCount := 0\<rparr>) (find (\<lambda>c. chat_id c = cid) (items st))
   \<and> (distinct (map chat_id (items st)) \<longrightarrow>
         items (markChatRead st cid)
           = map (\<lambda>c. if chat_id c = cid then c\<lparr>unreadCount := 0\<rparr> else c) (items st))"
proof -
  have slice_nth: "\<forall>i < length (items st).
         items (markChatRead st cid) ! i = items st ! i
         \<or> (chat_id (items st ! i) = cid
            \<and> items (markChatRead st cid) ! i = (items st ! i)\<lparr>unreadCount := 0\<rparr>)"
    using nth_update_first [of _ "items st" "\<lambda>c. chat_id c = cid" "\<lambda>c. c\<lparr>unreadCount := 0\<rparr>"]
    by (simp add: markChatRead_def)
  have slice_find: "find (\<lambda>c. chat_id c = cid) (items (markChatRead st cid))
       = map_option (\<lambda>c. c\<lparr>unreadCount := 0\<rparr>) (find (\<lambda>c. chat_id c = cid) (items st))"
    by (simp add: markChatRead_def find_update_first_keep)
  have slice_distinct: "distinct (map chat_id (items st)) \<longrightarrow>
         items (markChatRead st cid)
           = map (\<lambda>c. if chat_id c = cid then c\<lparr>unreadCount := 0\<rparr> else c) (items st)"
    by (simp add: markChatRead_def update_first_distinct)
  show ?thesis
    using slice_nth slice_find slice_distinct
    by (simp add: markChatAsRead_def markChatRead_def length_update_first)
qed

theorem markChatRead_changes_unreadCount_only_witness:
  "(1::nat) < length (chat_rows exampleStore)
   \<and> chat_rows (fst (markChatAsRead None exampleStore ''b'')) ! 1 = chatB\<lparr>unreadCount := 0\<rparr>
   \<and> chat_rows (fst (markChatAsRead None exampleStore ''b'')) ! 0 = chatA
   \<and> distinct (map chat_id (items (chats (exampleView None))))
   \<and> items (markChatRead (chats (exampleView None)) ''b'') = [chatA, chatB\<lparr>unreadCount := 0\<rparr>]"
  using markChatRead_changes_unreadCount_only [of exampleStore "''b''" _ "chats (exampleView None)"]
  by (simp add: exampleStore_def exampleView_def emptyView_def chatA_def chatB_def)

section \<open>Pages of the chat table\<close>












section \<open>Inserting a message\<close>

lemma insertMessage_insert_fails:
  "insertMsg_run fault1 db
     \<lparr>msg_id = messageId, chatId = cid, ts = t, sender = sndr, body = bdy\<rparr> = Inl e \<Longrightarrow>
   insertMessage fault1 fault2 db cid messageId t sndr bdy inc = (db, Some e)"
  by (simp add: insertMessage_def)

lemma insertMessage_without_update_fault:
  "insertMessage fault1 None db cid messageId t sndr bdy inc = (db', r) \<Longrightarrow>
   (r \<noteq> None \<and> db' = db)
   \<or> (r = None
      \<and> message_rows db' = message_rows db
           @ [\<lparr>msg_id = messageId, chatId = cid, ts = t, sender = sndr, body = bdy\<rparr>]
      \<and> chat_rows db' = map (\<lambda>c. if chat_id c = cid
           then (if inc then c\<lparr>lastMessageAt := t, unreadCount := unreadCount c + 1\<rparr>
                 else c\<lparr>lastMessageAt := t\<rparr>)
           else c) (chat_rows db))"
  by (auto simp: insertMessage_def insertMsg_run_def updateChat_run_def
      split: option.splits if_splits)

text \<open>
  C6. The INSERT and the UPDATE of \<open>insertMessage\<close> are two statements, each committed on
  its own, with no transaction around them. When the INSERT has succeeded and the UPDATE
  then fails (here: the disk is full), the call throws and leaves the message row in the
  table, while the chat row keeps its old \<open>lastMessageAt\<close> and \<open>unreadCount\<close>.
\<close>

theorem insertMessage_leaves_message_when_update_fails:
  "insertMessage None (Some SQLITE_FULL) exampleStore ''b'' ''m1'' 10 ''user_001''
       ''Got it, thanks!'' True
     = (\<lparr>chat_rows = [chatA, chatB], message_rows = [msgTo ''b'' ''m1'']\<rparr>, Some SQLITE_FULL)"
  by (simp add: insertMessage_def insertMsg_run_def updateChat_run_def exampleStore_def
      chatA_def chatB_def msgTo_def)

section \<open>The manager: facts about its operations\<close>

lemmas slice_defs = initialState_def setConnecting_def setConnected_def setDisconnected_def
  setConnectionError_def updateHeartbeat_def

lemmas manager_defs = newManager_def emptyView_def setTimeout_def setInterval_def
  clearTimeout_def clearInterval_def socket_close_def stopHeartbeat_def disconnect_def
  reconnectDelay_def scheduleReconnect_def connect_def startHeartbeat_def handlePong_def
  onopen_def onclose_def onerror_def runCallback_def maxReconnectAttempts_def
  HEARTBEAT_INTERVAL_def HEARTBEAT_TIMEOUT_def Let_def

lemma timers_clearTimeout_subset: "set (timers (clearTimeout h m)) \<subseteq> set (timers m)"
  by (auto simp: clearTimeout_def)

lemma stopHeartbeat_fields:
  "reconnectAttempt (stopHeartbeat m) = reconnectAttempt m"
  "nextTimer (stopHeartbeat m) = nextTimer m"
  "sockets (stopHeartbeat m) = sockets m"
  "ws (stopHeartbeat m) = ws m"
  "connection (stopHeartbeat m) = connection m"
  "reconnectTimeout (stopHeartbeat m) = reconnectTimeout m"
  "ran (stopHeartbeat m) = ran m"
  by (simp_all add: stopHeartbeat_def clearInterval_def clearTimeout_def Let_def split: option.splits)

lemma timers_stopHeartbeat_subset: "set (timers (stopHeartbeat m)) \<subseteq> set (timers m)"
  by (auto simp: stopHeartbeat_def clearInterval_def clearTimeout_def Let_def split: option.splits)

lemma timers_stopHeartbeat_connection:
  "timers (stopHeartbeat (m\<lparr>connection := c\<rparr>)) = timers (stopHeartbeat m)"
  by (simp add: stopHeartbeat_def clearInterval_def clearTimeout_def Let_def split: option.splits)

lemma disconnect_fields:
  "reconnectAttempt (disconnect m) = reconnectAttempt m"
  "nextTimer (disconnect m) = nextTimer m"
  "length (sockets (disconnect m)) = length (sockets m)"
  "ws (disconnect m) = None"
  "connection (disconnect m) = connection m"
  "ran (disconnect m) = ran m"
  by (simp_all add: disconnect_def stopHeartbeat_def clearInterval_def clearTimeout_def
      socket_close_def Let_def split: option.splits)

lemma timers_disconnect_subset: "set (timers (disconnect m)) \<subseteq> set (timers m)"
  by (auto simp: disconnect_def stopHeartbeat_def clearInterval_def clearTimeout_def
      socket_close_def Let_def split: option.splits)

lemma connect_None:
  "connect None m = m\<lparr>connection := setConnecting (connection m),
      ws := Some (length (sockets m)), sockets := sockets m @ [CONNECTING]\<rparr>"
  by (simp add: connect_def Let_def)


lemma sockets_socket_close:
  "sockets (socket_close s m)
     = (if s < length (sockets m) \<and> (sockets m ! s = CONNECTING \<or> sockets m ! s = OPEN)
        then (sockets m)[s := CLOSING] else sockets m)"
  by (auto simp: socket_close_def)

lemma sockets_disconnect:
  "sockets (disconnect m) = (case ws m of None \<Rightarrow> sockets m | Some s \<Rightarrow> sockets (socket_close s m))"
proof -
  have a: "sockets (socket_close s (clearTimeout h m')) = sockets (socket_close s m')" for s h m'
    by (auto simp: sockets_socket_close clearTimeout_def)
  have b: "sockets (socket_close s (stopHeartbeat m')) = sockets (socket_close s m')" for s m'
    by (auto simp: sockets_socket_close stopHeartbeat_fields)
  have c: "ws (clearTimeout h m') = ws m'" "sockets (clearTimeout h m') = sockets m'" for h m'
    by (simp_all add: clearTimeout_def)
  show ?thesis
  proof (cases "reconnectTimeout (stopHeartbeat m)")
    case None
    then show ?thesis
      by (cases "ws m") (simp_all add: disconnect_def Let_def b stopHeartbeat_fields)
  next
    case (Some h)
    then show ?thesis
      by (cases "ws m") (simp_all add: disconnect_def Let_def a b c stopHeartbeat_fields)
  qed
qed

lemma sockets_socket_close_closed:
  "list_all (\<lambda>s. s = CLOSED) (sockets m) \<Longrightarrow> sockets (socket_close s m) = sockets m"
  by (auto simp: sockets_socket_close list_all_length)

lemma givenUp_disconnect:
  assumes "givenUp m"
  shows "givenUp (disconnect m) \<and> sockets (disconnect m) = sockets m"
proof -
  from assms have c: "list_all (\<lambda>s. s = CLOSED) (sockets m)" and t: "timers m = []"
    by (simp_all add: givenUp_def)
  have s: "sockets (disconnect m) = sockets m"
    using c by (simp add: sockets_disconnect sockets_socket_close_closed split: option.splits)
  have "timers (disconnect m) = []"
    using timers_disconnect_subset [of m] t by simp
  with assms s show ?thesis
    by (simp add: givenUp_def disconnect_fields)
qed

lemma givenUp_no_socket_event:
  assumes "givenUp m" and "s < length (sockets m)"
  shows "sockets m ! s = CLOSED"
  using assms by (simp add: givenUp_def list_all_length)

lemma givenUp_step:
  assumes "givenUp m" and "step e m = Some m'" and "\<forall>thrown. e \<noteq> CallConnect thrown"
  shows "givenUp m' \<and> sockets m' = sockets m \<and> reconnectAttempt m' = reconnectAttempt m"
proof (cases e)
  case (CallConnect x1)
  with assms(3) show ?thesis by simp
next
  case CallDisconnect
  with assms(2) have "m' = disconnect m" by simp
  with givenUp_disconnect [OF assms(1)] show ?thesis
    by (simp add: disconnect_fields)
next
  case (SockOpen s)
  with assms(2) givenUp_no_socket_event [OF assms(1), of s] show ?thesis
    by (simp split: if_splits)
next
  case (SockMessage s f)
  with assms(2) givenUp_no_socket_event [OF assms(1), of s] show ?thesis
    by (simp split: if_splits)
next
  case (SockError s)
  with assms(2) givenUp_no_socket_event [OF assms(1), of s] show ?thesis
    by (simp split: if_splits)
next
  case (SockClose s)
  with assms(2) givenUp_no_socket_event [OF assms(1), of s] show ?thesis
    by (simp split: if_splits)
next
  case (TimerFire h thr)
  with assms(1,2) show ?thesis
    by (simp add: givenUp_def)
next
  case (Advance d)
  with assms(1,2) have "m' = m\<lparr>clock := clock m + int d\<rparr>" by simp
  with assms(1) show ?thesis
    by (simp add: givenUp_def)
qed


lemma reconnectAttempt_scheduleReconnect:
  "reconnectAttempt (scheduleReconnect m) = reconnectAttempt m"
  by (simp add: scheduleReconnect_def setTimeout_def Let_def)

lemma reconnectAttempt_connect: "reconnectAttempt (connect thrown m) = reconnectAttempt m"
  by (cases thrown) (simp_all add: connect_def Let_def reconnectAttempt_scheduleReconnect)

lemma reconnectAttempt_handleMessage: "reconnectAttempt (handleMessage msg m) = reconnectAttempt m"
  by (cases msg) (simp add: handlePong_def clearTimeout_def Let_def split: option.splits)

lemma reconnectAttempt_runCallback:
  "reconnectAttempt m \<le> reconnectAttempt (runCallback cb thrown m)"
  by (cases cb)
    (simp_all add: runCallback_def Let_def reconnectAttempt_connect disconnect_fields
      setTimeout_def split: option.splits)

lemma reconnectAttempt_step:
  assumes "step e m = Some m'" and "\<forall>s. e \<noteq> SockOpen s"
  shows "reconnectAttempt m \<le> reconnectAttempt m'"
proof (cases e)
  case (CallConnect thrown)
  with assms(1) show ?thesis by (auto simp: reconnectAttempt_connect)
next
  case CallDisconnect
  with assms(1) show ?thesis by (auto simp: disconnect_fields)
next
  case (SockOpen s)
  with assms(2) show ?thesis by simp
next
  case (SockMessage s frame)
  with assms(1) show ?thesis
    by (auto simp: reconnectAttempt_handleMessage split: if_splits option.splits)
next
  case (SockError s)
  with assms(1) show ?thesis by (auto simp: onerror_def split: if_splits)
next
  case (SockClose s)
  with assms(1) show ?thesis
    by (auto simp: onclose_def reconnectAttempt_scheduleReconnect stopHeartbeat_fields
        split: if_splits)
next
  case (TimerFire h thrown)
  show ?thesis
  proof (cases "map_of (timers m) h")
    case None
    with assms(1) TimerFire show ?thesis by simp
  next
    case (Some t)
    with assms(1) TimerFire have "m' = runCallback (callback t) thrown
        (if repeating t then m else clearTimeout h m)"
      by simp
    then show ?thesis
      using reconnectAttempt_runCallback
        [of "if repeating t then m else clearTimeout h m" "callback t" thrown]
      by (simp add: clearTimeout_def split: if_splits)
  qed
next
  case (Advance d)
  with assms(1) show ?thesis by auto
qed

section \<open>Reconnect delays\<close>

text \<open>
  C4. When \<open>scheduleReconnect\<close> runs with \<open>reconnectAttempt = a\<close> and \<open>a \<le> 4\<close>, it arms exactly
  one timer, whose delay is \<open>min (2 ^ a) 30\<close> seconds (in milliseconds), a function of \<open>a\<close>
  alone; so does the close handler of a socket, which calls it after stopping the
  heartbeat. When \<open>a \<ge> 5\<close> no timer is armed.
\<close>

theorem reconnect_delay_schedule:
  "(reconnectAttempt m \<le> 4 \<longrightarrow>
      timers (scheduleReconnect m)
        = timers m @ [(nextTimer m, \<lparr>repeating = False, callback = ReconnectCb,
                                     delay = 1000 * min (2 ^ reconnectAttempt m) 30\<rparr>)]
      \<and> reconnectTimeout (scheduleReconnect m) = Some (nextTimer m)
      \<and> timers (onclose m)
        = timers (stopHeartbeat m) @ [(nextTimer m, \<lparr>repeating = False, callback = ReconnectCb,
                                     delay = 1000 * min (2 ^ reconnectAttempt m) 30\<rparr>)])
   \<and> (5 \<le> reconnectAttempt m \<longrightarrow>
        timers (scheduleReconnect m) = timers m \<and> timers (onclose m) = timers (stopHeartbeat m))"
proof -
  have d: "reconnectDelay a = 1000 * min (2 ^ a) 30" for a
    by (simp add: reconnectDelay_def min_def)
  have s1: "reconnectAttempt m \<le> 4 \<Longrightarrow> scheduleReconnect m
     = m\<lparr>timers := timers m @ [(nextTimer m, \<lparr>repeating = False, callback = ReconnectCb,
                                     delay = 1000 * min (2 ^ reconnectAttempt m) 30\<rparr>)],
          nextTimer := nextTimer m + 1, reconnectTimeout := Some (nextTimer m)\<rparr>" for m
    by (simp add: scheduleReconnect_def Let_def setTimeout_def maxReconnectAttempts_def d)
  have s2: "5 \<le> reconnectAttempt m \<Longrightarrow> timers (scheduleReconnect m) = timers m" for m
    by (simp add: scheduleReconnect_def Let_def maxReconnectAttempts_def)
  show ?thesis
    by (simp add: s1 s2 onclose_def stopHeartbeat_fields timers_stopHeartbeat_connection)
qed


theorem reconnect_delay_schedule_witness:
  "reconnectAttempt (newManager\<lparr>reconnectAttempt := 4\<rparr>) \<le> 4
   \<and> timers (scheduleReconnect (newManager\<lparr>reconnectAttempt := 4\<rparr>))
       = [(1, \<lparr>repeating = False, callback = ReconnectCb, delay = 16000\<rparr>)]
   \<and> timers (onclose (newManager\<lparr>reconnectAttempt := 4\<rparr>))
       = [(1, \<lparr>repeating = False, callback = ReconnectCb, delay = 16000\<rparr>)]
   \<and> 5 \<le> reconnectAttempt (stateAfter (failing_run 6))
   \<and> timers (scheduleReconnect (stateAfter (failing_run 6))) = []"
proof -
  have a: "reconnectAttempt (newManager\<lparr>reconnectAttempt := 4\<rparr>) = 4"
    "timers (newManager\<lparr>reconnectAttempt := 4\<rparr>) = []"
    "nextTimer (newManager\<lparr>reconnectAttempt := 4\<rparr>) = 1"
    "timers (stopHeartbeat (newManager\<lparr>reconnectAttempt := 4\<rparr>)) = []"
    by (simp_all add: newManager_def stopHeartbeat_def)
  have c: "reconnectAttempt (stateAfter (failing_run 6)) = 5"
    "timers (stateAfter (failing_run 6)) = []"
    by code_simp+
  show ?thesis
    using reconnect_delay_schedule [of "newManager\<lparr>reconnectAttempt := 4\<rparr>"]
      reconnect_delay_schedule [of "stateAfter (failing_run 6)"]
    by (simp add: a c)
qed

section \<open>Heartbeat timeout\<close>



section \<open>connect() in any state\<close>

text \<open>
  C2 as the code has it. \<open>connect()\<close> has no guard: in every state, \<open>Connecting\<close> and
  \<open>Connected\<close> included, it sets the status to \<open>Connecting\<close>, clears the error, and opens a
  new socket, which takes the place of \<open>this.ws\<close>; the sockets created before keep their
  state, and the timers and the attempt counter are as they were.
\<close>

theorem connect_has_no_guard:
  "step (CallConnect None) m = Some (connect None m)
   \<and> status (connection (connect None m)) = Connecting
   \<and> conn_error (connection (connect None m)) = None
   \<and> sockets (connect None m) = sockets m @ [CONNECTING]
   \<and> ws (connect None m) = Some (length (sockets m))
   \<and> timers (connect None m) = timers m
   \<and> reconnectAttempt (connect None m) = reconnectAttempt m"
  by (simp add: connect_None setConnecting_def)

text \<open>
  C2 as stated fails: on a connected manager, and on a connecting one, \<open>connect()\<close> changes
  the status and opens a second socket.
\<close>

theorem connect_when_connected_opens_second_socket:
  "run [CallConnect None, SockOpen 0] newManager = Some connectedManager
   \<and> status (connection connectedManager) = Connected
   \<and> sockets connectedManager = [OPEN]
   \<and> ws connectedManager = Some 0
   \<and> status (connection (connect None connectedManager)) = Connecting
   \<and> sockets (connect None connectedManager) = [OPEN, CONNECTING]
   \<and> ws (connect None connectedManager) = Some 1
   \<and> status (connection (connect None newManager)) = Connecting
   \<and> sockets (connect None (connect None newManager)) = [CONNECTING, CONNECTING]"
  by (simp add: connectedManager_def stateAfter_def manager_defs slice_defs)

section \<open>Giving up\<close>

text \<open>
  C5 as the code has it. When \<open>scheduleReconnect\<close> runs with the counter at 5
  (\<open>maxReconnectAttempts\<close>) it arms no timer and sets the status to \<open>Error\<close> with the message
  of \<open>givenUp\<close>; a fresh manager is there after six failed attempts in a row, the first one
  and five reconnects. In that state no event but an explicit \<open>connect()\<close> changes the
  status or opens a socket. An explicit \<open>connect()\<close> sets the status to \<open>Connecting\<close> and
  opens a socket, and leaves the attempt counter as it is: the open handler resets it to
  0, and no other event ever lowers it.
\<close>

theorem gives_up_when_reconnects_exhausted:
  "(maxReconnectAttempts \<le> reconnectAttempt m \<longrightarrow>
      scheduleReconnect m
        = m\<lparr>connection := setConnectionError
               ''Max reconnection attempts reached. Please restart app.'' (connection m)\<rparr>
      \<and> status (connection (scheduleReconnect m)) = Error
      \<and> timers (scheduleReconnect m) = timers m
      \<and> sockets (scheduleReconnect m) = sockets m)
   \<and> (givenUp m \<and> step e m = Some m' \<and> (\<forall>thrown. e \<noteq> CallConnect thrown) \<longrightarrow>
        givenUp m' \<and> sockets m' = sockets m \<and> reconnectAttempt m' = reconnectAttempt m)
   \<and> (step e m = Some m' \<and> (\<forall>s. e \<noteq> SockOpen s) \<longrightarrow>
        reconnectAttempt m \<le> reconnectAttempt m')
   \<and> step (CallConnect None) m = Some (connect None m)
   \<and> status (connection (connect None m)) = Connecting
   \<and> sockets (connect None m) = sockets m @ [CONNECTING]
   \<and> reconnectAttempt (connect None m) = reconnectAttempt m
   \<and> reconnectAttempt (onopen m) = 0
   \<and> run (failing_run 6) newManager = Some (stateAfter (failing_run 6))
   \<and> givenUp (stateAfter (failing_run 6))"
proof -
  have s: "maxReconnectAttempts \<le> reconnectAttempt m \<longrightarrow>
      scheduleReconnect m
        = m\<lparr>connection := setConnectionError
               ''Max reconnection attempts reached. Please restart app.'' (connection m)\<rparr>
      \<and> status (connection (scheduleReconnect m)) = Error
      \<and> timers (scheduleReconnect m) = timers m
      \<and> sockets (scheduleReconnect m) = sockets m"
    by (simp add: scheduleReconnect_def Let_def setConnectionError_def)
  have n: "step e m = Some m' \<and> (\<forall>s. e \<noteq> SockOpen s) \<longrightarrow>
        reconnectAttempt m \<le> reconnectAttempt m'"
    using reconnectAttempt_step [of e m m'] by blast
  have g: "givenUp m \<and> step e m = Some m' \<and> (\<forall>thrown. e \<noteq> CallConnect thrown) \<longrightarrow>
        givenUp m' \<and> sockets m' = sockets m \<and> reconnectAttempt m' = reconnectAttempt m"
    using givenUp_step [of m e m'] by blast
  have o: "reconnectAttempt (onopen m) = 0"
    by (simp add: onopen_def startHeartbeat_def setInterval_def)
  have r: "run (failing_run 6) newManager = Some (stateAfter (failing_run 6))"
    by code_simp
  have u: "givenUp (stateAfter (failing_run 6))"
    by code_simp
  show ?thesis
    using s g n o r u by (simp add: connect_None setConnecting_def setConnectionError_def)
qed

theorem gives_up_when_reconnects_exhausted_witness:
  "maxReconnectAttempts \<le> reconnectAttempt (stateAfter (failing_run 6))
   \<and> givenUp (stateAfter (failing_run 6))
   \<and> step CallDisconnect (stateAfter (failing_run 6))
       = Some (disconnect (stateAfter (failing_run 6)))
   \<and> givenUp (disconnect (stateAfter (failing_run 6)))
   \<and> sockets (disconnect (stateAfter (failing_run 6)))
       = [CLOSED, CLOSED, CLOSED, CLOSED, CLOSED, CLOSED]
   \<and> reconnectAttempt (connect None (stateAfter (failing_run 6))) = 5"
proof -
  have a: "reconnectAttempt (stateAfter (failing_run 6)) = 5"
    "sockets (stateAfter (failing_run 6)) = [CLOSED, CLOSED, CLOSED, CLOSED, CLOSED, CLOSED]"
    by code_simp+
  have b: "\<forall>thrown. CallDisconnect \<noteq> CallConnect thrown"
    by simp
  show ?thesis
    using gives_up_when_reconnects_exhausted
      [of "stateAfter (failing_run 6)" CallDisconnect "disconnect (stateAfter (failing_run 6))"]
    by (simp add: a b maxReconnectAttempts_def)
qed

text \<open>
  C5 as stated fails. After five failed attempts in a row of a fresh manager the status
  is \<open>Disconnected\<close> and a reconnect timer of 16 seconds is pending; when it fires a sixth
  socket is opened. After the sixth failure the manager has given up, and an explicit
  \<open>connect()\<close> leaves the manager's counter at 5 and the slice's at 6.
\<close>

theorem five_failures_do_not_give_up:
  "run (failing_run 5) newManager = Some (stateAfter (failing_run 5))
   \<and> status (connection (stateAfter (failing_run 5))) = Disconnected
   \<and> sockets (stateAfter (failing_run 5)) = [CLOSED, CLOSED, CLOSED, CLOSED, CLOSED]
   \<and> timers (stateAfter (failing_run 5))
       = [(5, \<lparr>repeating = False, callback = ReconnectCb, delay = 16000\<rparr>)]
   \<and> run (failing_run 5 @ [TimerFire 5 None]) newManager
       = Some (stateAfter (failing_run 5 @ [TimerFire 5 None]))
   \<and> sockets (stateAfter (failing_run 5 @ [TimerFire 5 None]))
       = [CLOSED, CLOSED, CLOSED, CLOSED, CLOSED, CONNECTING]
   \<and> run (failing_run 6) newManager = Some (stateAfter (failing_run 6))
   \<and> givenUp (stateAfter (failing_run 6))
   \<and> reconnectAttempt (connect None (stateAfter (failing_run 6))) = 5
   \<and> conn_reconnectAttempt (connection (connect None (stateAfter (failing_run 6)))) = 6"
  by code_simp

section \<open>Timers after disconnect()\<close>

text \<open>
  C1. A connected manager whose \<open>disconnect()\<close> has returned holds no pending timer, and
  its socket is closing. The close event of that socket then runs the close handler,
  which is still attached: it arms a reconnect timer of one second. When that timer fires
  the reconnect callback runs and opens a second socket, although \<open>connect()\<close> was never
  called again.
\<close>

theorem reconnect_timer_fires_after_disconnect:
  "run disconnectRun newManager = Some (stateAfter disconnectRun)
   \<and> timers (stateAfter disconnectRun) = []
   \<and> sockets (stateAfter disconnectRun) = [CLOSING]
   \<and> run (disconnectRun @ [SockClose 0, TimerFire 2 None]) newManager
       = Some (stateAfter (disconnectRun @ [SockClose 0, TimerFire 2 None]))
   \<and> timers (stateAfter (disconnectRun @ [SockClose 0]))
       = [(2, \<lparr>repeating = False, callback = ReconnectCb, delay = 1000\<rparr>)]
   \<and> ran (stateAfter (disconnectRun @ [SockClose 0, TimerFire 2 None])) = [ReconnectCb]
   \<and> sockets (stateAfter (disconnectRun @ [SockClose 0, TimerFire 2 None]))
       = [CLOSED, CONNECTING]
   \<and> status (connection (stateAfter (disconnectRun @ [SockClose 0, TimerFire 2 None])))
       = Connecting"
  by code_simp

end
